theory Spec2Isabelle
  imports Main "HOL-Library.Word" "HOL-Library.Sublist"
begin

section \<open>Strings, dates and the data model of src/index.ts\<close>

text \<open>
  A JavaScript string is a sequence of UTF-16 code units. ASCII literals of the source are
  written with \<open>ascii\<close>; Japanese literals are written as their code units (every
  character of the source's literals lies in the Basic Multilingual Plane, so one unit each).
\<close>

type_synonym jsstring = "16 word list"

definition ascii :: "string \<Rightarrow> jsstring" where
  "ascii s = map (\<lambda>c. of_nat (of_char c)) s"

text \<open>The two yen glyphs of \<open>formatAmount\<close>: U+00A5 and U+FFE5.\<close>

definition yen :: "16 word" where
  "yen = 0xA5"

definition fullwidth_yen :: "16 word" where
  "fullwidth_yen = 0xFFE5"

text \<open>
  \<open>String.prototype.replace\<close> with a string pattern: only the first occurrence of the
  pattern is replaced; a receiver without the pattern is returned as it is. (The replacement
  of the source holds no \<open>$\<close>, so it is inserted literally.)
\<close>

fun replace :: "'a list \<Rightarrow> 'a list \<Rightarrow> 'a list \<Rightarrow> 'a list" where
  "replace [] pat rep = (if pat = [] then rep else [])"
| "replace (c # cs) pat rep =
     (if prefix pat (c # cs) then rep @ drop (length pat) (c # cs)
      else c # replace cs pat rep)"

text \<open>Decimal rendering of a non-negative integer (\<open>${grants.length}\<close>).\<close>

fun toString_nat :: "nat \<Rightarrow> jsstring" where
  "toString_nat n =
     (if n < 10 then [of_nat (48 + n)]
      else toString_nat (n div 10) @ [of_nat (48 + n mod 10)])"

declare toString_nat.simps [simp del]

text \<open>
  A \<open>Date\<close> is modelled by its time value, the milliseconds since the epoch, as an
  \<open>int\<close>; comparing two dates with \<open><=\<close> compares their time values. The dates of the
  program are wall-clock readings and literals, so the Invalid Date and the bound of 8.64e15
  milliseconds on a time value are left out of the model.
  \<open>new Date('YYYY-MM-DD')\<close> is midnight UTC of that day; the day number is computed as
  ECMAScript's MakeDay does (months counted from 0 there, from 1 in the string).
\<close>

type_synonym date = int

definition msPerDay :: int where
  "msPerDay = 86400000"

definition DayFromYear :: "int \<Rightarrow> int" where
  "DayFromYear y =
     365 * (y - 1970) + (y - 1969) div 4 - (y - 1901) div 100 + (y - 1601) div 400"

definition DaysInYear :: "int \<Rightarrow> int" where
  "DaysInYear y =
     (if y mod 4 \<noteq> 0 then 365
      else if y mod 100 \<noteq> 0 then 366
      else if y mod 400 \<noteq> 0 then 365
      else 366)"

definition InLeapYear :: "int \<Rightarrow> bool" where
  "InLeapYear y = (DaysInYear y = 366)"

definition DaysInMonths :: "int \<Rightarrow> int list" where
  "DaysInMonths y =
     [31, if InLeapYear y then 29 else 28, 31, 30, 31, 30, 31, 31, 30, 31, 30, 31]"

definition MakeDay :: "int \<Rightarrow> nat \<Rightarrow> int \<Rightarrow> int" where
  "MakeDay y m d = DayFromYear y + sum_list (take m (DaysInMonths y)) + d - 1"

definition Date_of_iso :: "int \<Rightarrow> nat \<Rightarrow> int \<Rightarrow> date" where
  "Date_of_iso y m d = MakeDay y (m - 1) d * msPerDay"

record GrantDeadline =
  start :: "date option"
  end' :: "date option"
  isRolling :: bool
  nextDeadline :: "date option"
  cycle :: "jsstring option"

datatype GrantStatus = active | upcoming | closed

datatype Currency = USD | JPY | EUR

record GrantInfo =
  title :: jsstring
  organization :: jsstring
  amount :: jsstring
  deadline :: GrantDeadline
  description :: jsstring
  eligibility :: jsstring
  upfrontPayment :: bool
  url :: jsstring
  category :: "jsstring list"
  lastUpdated :: date
  minimumAmount :: int
  maximumAmount :: int
  status :: GrantStatus
  currency :: Currency

text \<open>The string a \<open>currency\<close> value is at run time.\<close>

fun currency_code :: "Currency \<Rightarrow> jsstring" where
  "currency_code USD = ascii ''USD''"
| "currency_code JPY = ascii ''JPY''"
| "currency_code EUR = ascii ''EUR''"

section \<open>class GrantScraper\<close>

datatype Browser = LaunchedBrowser

record GrantScraper =
  browser :: "Browser option"
  currentDate :: date

text \<open>
  The constructor: \<open>browser\<close> starts as \<open>null\<close>; \<open>currentDate\<close> is the wall clock
  rendered in Asia/Tokyo and parsed again, which is taken as the argument \<open>tokyoNow\<close>.
\<close>

definition GrantScraper_new :: "date \<Rightarrow> GrantScraper" where
  "GrantScraper_new tokyoNow = \<lparr>browser = None, currentDate = tokyoNow\<rparr>"

text \<open>\<open>initialize\<close> stores the handle that \<open>puppeteer.launch\<close> resolved to.\<close>

definition initialize :: "Browser \<Rightarrow> GrantScraper \<Rightarrow> GrantScraper" where
  "initialize launched s = s\<lparr>browser := Some launched\<rparr>"

subsection \<open>The three records of scrapeGrants\<close>

definition pollination_title :: jsstring where
  "pollination_title = ascii ''Pollination Project Daily Grant''"

definition pollination_description :: jsstring where
  "pollination_description =
     [0x793E, 0x4F1A, 0x5909, 0x9769, 0x3092, 0x76EE, 0x6307, 0x3059, 0x500B, 0x4EBA,
      0x306B, 0x5BFE, 0x3059, 0x308B, 0x65E5, 0x6B21, 0x306E, 0x52A9, 0x6210, 0x91D1,
      0x3002, 0x74B0, 0x5883, 0x3001, 0x6559, 0x80B2, 0x3001, 0x793E, 0x4F1A, 0x6B63,
      0x7FA9, 0x306A, 0x3069, 0x306E, 0x5206, 0x91CE, 0x3067, 0x6D3B, 0x52D5, 0x3059,
      0x308B, 0x500B, 0x4EBA, 0x3092, 0x652F, 0x63F4, 0x3002]"

definition pollination_eligibility :: jsstring where
  "pollination_eligibility =
     [0x4E16, 0x754C, 0x4E2D, 0x306E, 0x500B, 0x4EBA, 0x304C, 0x5BFE, 0x8C61, 0xFF08,
      0x56E3, 0x4F53, 0x3082, 0x53EF, 0xFF09]"

definition pollinationGrant :: "date \<Rightarrow> date \<Rightarrow> GrantInfo" where
  "pollinationGrant current now =
     \<lparr>title = pollination_title,
      organization = ascii ''The Pollination Project'',
      amount = ascii ''$1,000'',
      deadline =
        \<lparr>start = None, end' = None, isRolling = True,
         nextDeadline = Some (current + 24 * 60 * 60 * 1000),
         cycle = Some (ascii ''daily'')\<rparr>,
      description = pollination_description,
      eligibility = pollination_eligibility,
      upfrontPayment = True,
      url = ascii ''https://thepollinationproject.org'',
      category =
        [ascii ''Social Change'', ascii ''Community'', ascii ''Environment'',
         ascii ''Education''],
      lastUpdated = now,
      minimumAmount = 1000,
      maximumAmount = 1000,
      status = active,
      currency = USD\<rparr>"

definition jfStart :: date where
  "jfStart = Date_of_iso 2024 12 1"

definition jfEnd :: date where
  "jfEnd = Date_of_iso 2025 1 15"

definition jf_title :: jsstring where
  "jf_title =
     ascii ''Japan Foundation '' @
     [0x30A2, 0x30FC, 0x30C8, 0x30D7, 0x30E9, 0x30C3, 0x30C8, 0x30D5, 0x30A9, 0x30FC,
      0x30E0, 0x52A9, 0x6210]"

definition jf_amount :: jsstring where
  "jf_amount = [yen] @ ascii ''1,000,000 - '' @ [yen] @ ascii ''5,000,000''"

definition jf_description :: jsstring where
  "jf_description =
     [0x65E5, 0x672C, 0x3068, 0x6D77, 0x5916, 0x306E, 0x30A2, 0x30FC, 0x30C6, 0x30A3,
      0x30B9, 0x30C8, 0x30FB, 0x6587, 0x5316, 0x56E3, 0x4F53, 0x306B, 0x3088, 0x308B,
      0x5171, 0x540C, 0x30D7, 0x30ED, 0x30B8, 0x30A7, 0x30AF, 0x30C8, 0x306E, 0x652F,
      0x63F4, 0x3002]"

definition jf_eligibility :: jsstring where
  "jf_eligibility =
     [0x30A2, 0x30FC, 0x30C6, 0x30A3, 0x30B9, 0x30C8, 0x3001, 0x6587, 0x5316, 0x56E3,
      0x4F53, 0xFF08, 0x56FD, 0x969B, 0x5354, 0x529B, 0x304C, 0x5FC5, 0x9808, 0xFF09]"

definition japanFoundationGrant :: "date \<Rightarrow> GrantInfo" where
  "japanFoundationGrant now =
     \<lparr>title = jf_title,
      organization = ascii ''Japan Foundation'',
      amount = jf_amount,
      deadline =
        \<lparr>start = Some jfStart, end' = Some jfEnd, isRolling = False,
         nextDeadline = Some jfEnd, cycle = None\<rparr>,
      description = jf_description,
      eligibility = jf_eligibility,
      upfrontPayment = True,
      url = ascii ''https://www.jpf.go.jp'',
      category = [ascii ''Arts'', ascii ''Culture'', ascii ''International''],
      lastUpdated = now,
      minimumAmount = 1000000,
      maximumAmount = 5000000,
      status = upcoming,
      currency = JPY\<rparr>"

definition saraiStart :: date where
  "saraiStart = Date_of_iso 2024 1 15"

definition saraiEnd :: date where
  "saraiEnd = Date_of_iso 2024 2 28"

definition sarai_title :: jsstring where
  "sarai_title =
     ascii ''SARAI '' @ [0x30D7, 0x30ED, 0x30B8, 0x30A7, 0x30AF, 0x30C8, 0x52A9, 0x6210, 0x91D1]"

definition sarai_amount :: jsstring where
  "sarai_amount = [yen] @ ascii ''500,000 - '' @ [yen] @ ascii ''2,000,000''"

definition sarai_description :: jsstring where
  "sarai_description =
     [0x6301, 0x7D9A, 0x53EF, 0x80FD, 0x306A, 0x8FB2, 0x696D, 0x30D7, 0x30ED, 0x30B8,
      0x30A7, 0x30AF, 0x30C8, 0x3001, 0x7279, 0x306B, 0x30A2, 0x30AF, 0x30A2, 0x30DD,
      0x30CB, 0x30AF, 0x30B9, 0x3084, 0x90FD, 0x5E02, 0x8FB2, 0x696D, 0x306E, 0x9769,
      0x65B0, 0x7684, 0x306A, 0x30A2, 0x30D7, 0x30ED, 0x30FC, 0x30C1, 0x3092, 0x652F,
      0x63F4]"

definition sarai_eligibility :: jsstring where
  "sarai_eligibility =
     [0x500B, 0x4EBA, 0x3001, 0x56E3, 0x4F53, 0xFF08, 0x55B6, 0x5229, 0x30FB, 0x975E,
      0x55B6, 0x5229, 0x554F, 0x308F, 0x305A, 0xFF09]"

definition saraiGrant :: "date \<Rightarrow> GrantInfo" where
  "saraiGrant now =
     \<lparr>title = sarai_title,
      organization = ascii ''Sustainable Agriculture Research Program'',
      amount = sarai_amount,
      deadline =
        \<lparr>start = Some saraiStart, end' = Some saraiEnd, isRolling = False,
         nextDeadline = Some saraiEnd, cycle = None\<rparr>,
      description = sarai_description,
      eligibility = sarai_eligibility,
      upfrontPayment = True,
      url = ascii ''https://sarai.example.com'',
      category =
        [ascii ''Agriculture'', ascii ''Sustainability'', ascii ''Innovation'',
         ascii ''Education''],
      lastUpdated = now,
      minimumAmount = 500000,
      maximumAmount = 2000000,
      status = upcoming,
      currency = JPY\<rparr>"

subsection \<open>scrapeGrants and getAllGrants\<close>

text \<open>
  \<open>clock k\<close> is the reading of the k-th \<open>new Date()\<close> made during the call (one per
  pushed record). The Japan Foundation record is pushed under its \<open>if\<close>; the other two
  pushes are unconditional.
\<close>

definition scrapeGrants :: "GrantScraper \<Rightarrow> (nat \<Rightarrow> date) \<Rightarrow> GrantInfo list" where
  "scrapeGrants s clock =
     (if browser s = None then []
      else
        let grants0 = [];
            grants1 = grants0 @ [pollinationGrant (currentDate s) (clock 0)];
            (grants2, reads) =
              (if currentDate s \<le> jfEnd
               then (grants1 @ [japanFoundationGrant (clock 1)], 2)
               else (grants1, 1));
            grants3 = grants2 @ [saraiGrant (clock reads)]
        in grants3)"

definition grant_count_label :: jsstring where
  "grant_count_label =
     [0x53D6, 0x5F97, 0x3057, 0x305F, 0x52A9, 0x6210, 0x91D1, 0x6570, 0x3A, 0x20]"

text \<open>\<open>getAllGrants\<close> returns the line it logs together with the grants.\<close>

definition getAllGrants :: "GrantScraper \<Rightarrow> (nat \<Rightarrow> date) \<Rightarrow> jsstring \<times> GrantInfo list" where
  "getAllGrants s clock =
     (let grants = scrapeGrants s clock
      in (grant_count_label @ toString_nat (length grants), grants))"

subsection \<open>formatAmount and formatDeadline\<close>

definition formatAmount :: "jsstring \<Rightarrow> jsstring \<Rightarrow> jsstring" where
  "formatAmount amt cur =
     (if cur = ascii ''JPY'' then replace amt [yen] [fullwidth_yen] else amt)"

definition rolling_label :: jsstring where
  "rolling_label = [0x5E38, 0x6642, 0x52DF, 0x96C6, 0x4E2D]"

definition next_deadline_prefix :: jsstring where
  "next_deadline_prefix = [0x6B21, 0x56DE, 0x7DE0, 0x5207, 0x3A, 0x20]"

definition range_prefix :: jsstring where
  "range_prefix = [0x52DF, 0x96C6, 0x671F, 0x9593, 0x3A, 0x20]"

definition fallback_label :: jsstring where
  "fallback_label =
     [0x52DF, 0x96C6, 0x671F, 0x9593, 0x306F, 0x516C, 0x5F0F, 0x30B5, 0x30A4, 0x30C8,
      0x3067, 0x3054, 0x78BA, 0x8A8D, 0x304F, 0x3060, 0x3055, 0x3044]"

text \<open>
  \<open>toLocaleDateString('ja-JP')\<close> depends on the host's locale data and time zone; it is the
  parameter \<open>localeDate\<close>. A \<open>Date\<close> object is truthy, so the tests of the source are tests
  for presence.
\<close>

definition formatDeadline :: "(date \<Rightarrow> jsstring) \<Rightarrow> GrantDeadline \<Rightarrow> jsstring" where
  "formatDeadline localeDate d =
     (if isRolling d then rolling_label
      else case nextDeadline d of
        Some nd \<Rightarrow> next_deadline_prefix @ localeDate nd
      | None \<Rightarrow>
          (case (start d, end' d) of
             (Some st, Some en) \<Rightarrow> range_prefix @ localeDate st @ ascii '' - '' @ localeDate en
           | _ \<Rightarrow> fallback_label))"

subsection \<open>The status line printed by main\<close>

definition accepting_label :: jsstring where
  "accepting_label = [0x52DF, 0x96C6, 0x4E2D]"

definition upcoming_label :: jsstring where
  "upcoming_label = [0x52DF, 0x96C6, 0x4E88, 0x5B9A]"

definition status_line_prefix :: jsstring where
  "status_line_prefix = [0x52DF, 0x96C6, 0x72B6, 0x6CC1, 0x3A, 0x20]"

definition statusLine :: "GrantInfo \<Rightarrow> jsstring" where
  "statusLine grant =
     status_line_prefix @ (if status grant = active then accepting_label else upcoming_label)"

section \<open>Notions used to state the properties\<close>

text \<open>The order in which the source writes the three records.\<close>

definition authoring_order :: "jsstring list" where
  "authoring_order = [pollination_title, jf_title, sarai_title]"

text \<open>A record with its \<open>lastUpdated\<close> stamp blanked, to compare two runs up to the stamp.\<close>

definition without_stamp :: "GrantInfo \<Rightarrow> GrantInfo" where
  "without_stamp g = g\<lparr>lastUpdated := 0\<rparr>"

section \<open>Evaluation lemmas\<close>

lemma Date_of_iso_values:
  "Date_of_iso 2024 12 1 = 1733011200000"
  "Date_of_iso 2025 1 15 = 1736899200000"
  "Date_of_iso 2024 1 15 = 1705276800000"
  "Date_of_iso 2024 2 28 = 1709078400000"
  "Date_of_iso 2025 2 1 = 1738368000000"
  "Date_of_iso 2024 6 1 = 1717200000000"
  "Date_of_iso 2024 6 2 = 1717286400000"
  "Date_of_iso 2025 1 14 = 1736812800000"
  "Date_of_iso 2025 1 16 = 1736985600000"
  unfolding Date_of_iso_def MakeDay_def
  by (simp_all add: DayFromYear_def DaysInMonths_def InLeapYear_def DaysInYear_def msPerDay_def)

lemma jfEnd_value: "jfEnd = 1736899200000"
  unfolding jfEnd_def by (rule Date_of_iso_values)

lemma saraiEnd_value: "saraiEnd = 1709078400000"
  unfolding saraiEnd_def by (rule Date_of_iso_values)

lemma initialize_fields:
  "browser (initialize b s) \<noteq> None"
  "currentDate (initialize b s) = currentDate s"
  "currentDate (GrantScraper_new t) = t"
  "browser (GrantScraper_new t) = None"
  by (simp_all add: initialize_def GrantScraper_new_def)

lemma scrapeGrants_uninitialized: "browser s = None \<Longrightarrow> scrapeGrants s clock = []"
  by (simp add: scrapeGrants_def)

lemma scrapeGrants_initialized:
  "browser s \<noteq> None \<Longrightarrow>
   scrapeGrants s clock =
     pollinationGrant (currentDate s) (clock 0) #
     (if currentDate s \<le> jfEnd then [japanFoundationGrant (clock 1), saraiGrant (clock 2)]
      else [saraiGrant (clock 1)])"
  by (simp add: scrapeGrants_def Let_def)

lemma titles_distinct: "distinct authoring_order"
  by (simp add: authoring_order_def pollination_title_def jf_title_def sarai_title_def ascii_def)

lemma grant_titles:
  "title (pollinationGrant c n) = pollination_title"
  "title (japanFoundationGrant n) = jf_title"
  "title (saraiGrant n) = sarai_title"
  by (simp_all add: pollinationGrant_def japanFoundationGrant_def saraiGrant_def)

lemma grant_deadlines:
  "deadline (pollinationGrant c n) =
     \<lparr>start = None, end' = None, isRolling = True, nextDeadline = Some (c + 86400000),
      cycle = Some (ascii ''daily'')\<rparr>"
  "deadline (japanFoundationGrant n) =
     \<lparr>start = Some jfStart, end' = Some jfEnd, isRolling = False, nextDeadline = Some jfEnd,
      cycle = None\<rparr>"
  "deadline (saraiGrant n) =
     \<lparr>start = Some saraiStart, end' = Some saraiEnd, isRolling = False,
      nextDeadline = Some saraiEnd, cycle = None\<rparr>"
  by (simp_all add: pollinationGrant_def japanFoundationGrant_def saraiGrant_def)

lemma grant_statuses:
  "status (pollinationGrant c n) = active"
  "status (japanFoundationGrant n) = upcoming"
  "status (saraiGrant n) = upcoming"
  by (simp_all add: pollinationGrant_def japanFoundationGrant_def saraiGrant_def)

lemma grant_amounts:
  "amount (japanFoundationGrant n) = jf_amount" "currency (japanFoundationGrant n) = JPY"
  "amount (saraiGrant n) = sarai_amount" "currency (saraiGrant n) = JPY"
  "amount (pollinationGrant c n) = ascii ''$1,000''" "currency (pollinationGrant c n) = USD"
  by (simp_all add: pollinationGrant_def japanFoundationGrant_def saraiGrant_def)

lemma without_stamp_grants:
  "without_stamp (pollinationGrant c n) = without_stamp (pollinationGrant c m)"
  "without_stamp (japanFoundationGrant n) = without_stamp (japanFoundationGrant m)"
  "without_stamp (saraiGrant n) = without_stamp (saraiGrant m)"
  by (simp_all add: without_stamp_def pollinationGrant_def japanFoundationGrant_def saraiGrant_def)

lemma labels_distinct:
  "distinct [rolling_label, fallback_label]"
  "\<not> prefix next_deadline_prefix rolling_label"
  "\<not> prefix range_prefix rolling_label"
  "\<not> prefix next_deadline_prefix fallback_label"
  "\<not> prefix range_prefix fallback_label"
  "\<not> prefix range_prefix (next_deadline_prefix @ x)"
  "\<not> prefix next_deadline_prefix (range_prefix @ y)"
  by (simp_all add: rolling_label_def fallback_label_def next_deadline_prefix_def range_prefix_def)

section \<open>The deadline window of the non-rolling records\<close>

text \<open>
  The Japan Foundation record is emitted exactly while the reference time has not passed its
  \<open>end\<close>.
\<close>

lemma japan_foundation_window:
  "browser s \<noteq> None \<Longrightarrow>
   (\<exists>g \<in> set (scrapeGrants s clock). title g = jf_title) = (currentDate s \<le> jfEnd)"
  using titles_distinct
  by (auto simp: scrapeGrants_initialized grant_titles authoring_order_def)

text \<open>The example of the specification: end 2025-01-15, references 2025-01-14 and 2025-01-16.\<close>

lemma japan_foundation_example:
  "map title
     (scrapeGrants (initialize LaunchedBrowser (GrantScraper_new (Date_of_iso 2025 1 14))) clock)
     = [pollination_title, jf_title, sarai_title]"
  "map title
     (scrapeGrants (initialize LaunchedBrowser (GrantScraper_new (Date_of_iso 2025 1 16))) clock)
     = [pollination_title, sarai_title]"
  unfolding Date_of_iso_values
  by (simp_all add: scrapeGrants_initialized initialize_fields jfEnd_value grant_titles)

text \<open>
  C1. The specification states: each non-rolling record (Japan Foundation and SARAI) is in the output
  of \<open>scrapeGrants\<close> exactly when the reference time is at most its \<open>deadline.end\<close>.
  The SARAI record is pushed without the test its sibling has. At the reference time
  2025-02-01, after both ends, an initialised scraper leaves the Japan Foundation record out
  and still emits the SARAI record, whose \<open>end\<close> is 2024-02-28.
\<close>

theorem sarai_emitted_after_end:
  "saraiEnd < Date_of_iso 2025 2 1 \<and> jfEnd < Date_of_iso 2025 2 1 \<and>
   scrapeGrants (initialize LaunchedBrowser (GrantScraper_new (Date_of_iso 2025 2 1))) clock =
     [pollinationGrant (Date_of_iso 2025 2 1) (clock 0), saraiGrant (clock 1)] \<and>
   isRolling (deadline (saraiGrant (clock 1))) = False \<and>
   end' (deadline (saraiGrant (clock 1))) = Some saraiEnd"
proof -
  have ref: "Date_of_iso 2025 2 1 = 1738368000000"
    by (rule Date_of_iso_values)
  show ?thesis
    unfolding ref
    by (simp add: scrapeGrants_initialized initialize_fields saraiEnd_value jfEnd_value
        grant_deadlines)
qed

section \<open>The rolling record\<close>

text \<open>
  C2. For an initialised scraper and every reference time, the Pollination Project record
  is in the output of \<open>scrapeGrants\<close>, it is rolling, and its \<open>nextDeadline\<close> is the
  reference time plus 24 hours (in milliseconds); every rolling record of the output is
  that record.
\<close>

theorem rolling_grant_next_deadline:
  assumes "browser s \<noteq> None"
  shows "(\<exists>g \<in> set (scrapeGrants s clock).
            title g = pollination_title \<and> isRolling (deadline g) \<and>
            nextDeadline (deadline g) = Some (currentDate s + 24 * 60 * 60 * 1000)) \<and>
         (\<forall>g \<in> set (scrapeGrants s clock).
            isRolling (deadline g) \<longrightarrow>
            title g = pollination_title \<and>
            nextDeadline (deadline g) = Some (currentDate s + 24 * 60 * 60 * 1000))"
  using assms by (simp add: scrapeGrants_initialized grant_titles grant_deadlines)

text \<open>The example of the specification: reference 2024-06-01, next deadline 2024-06-02.\<close>

theorem rolling_grant_next_deadline_witness:
  "\<exists>g \<in> set (scrapeGrants (initialize LaunchedBrowser (GrantScraper_new (Date_of_iso 2024 6 1)))
        (\<lambda>k. 0)).
     title g = pollination_title \<and> isRolling (deadline g) \<and>
     nextDeadline (deadline g) = Some (Date_of_iso 2024 6 2)"
proof -
  have day: "Date_of_iso 2024 6 1 + 24 * 60 * 60 * 1000 = Date_of_iso 2024 6 2"
    unfolding Date_of_iso_values by simp
  have init: "browser (initialize LaunchedBrowser (GrantScraper_new (Date_of_iso 2024 6 1))) \<noteq> None"
    by (rule initialize_fields)
  from rolling_grant_next_deadline [OF init, of "\<lambda>k. 0"]
  show ?thesis
    unfolding initialize_fields(2,3) day by blast
qed

section \<open>formatAmount\<close>

lemma replace_absent: "x \<notin> set xs \<Longrightarrow> replace xs [x] r = xs"
  by (induction xs) auto

lemma replace_first: "x \<notin> set pre \<Longrightarrow> replace (pre @ x # post) [x] r = pre @ r @ post"
  by (induction pre) auto

text \<open>What \<open>formatAmount\<close> does: other currencies pass through, and for JPY the first yen
  glyph, and only that one, becomes the full-width glyph.\<close>

lemma formatAmount_other: "cur \<noteq> ascii ''JPY'' \<Longrightarrow> formatAmount amt cur = amt"
  by (simp add: formatAmount_def)

lemma formatAmount_first_yen:
  "yen \<notin> set pre \<Longrightarrow>
   formatAmount (pre @ yen # post) (ascii ''JPY'') = pre @ fullwidth_yen # post"
  by (simp add: formatAmount_def replace_first)

lemma formatAmount_no_yen: "yen \<notin> set amt \<Longrightarrow> formatAmount amt cur = amt"
  by (simp add: formatAmount_def replace_absent)

text \<open>
  C3. The specification states: with currency JPY every yen glyph U+00A5 of the amount becomes the
  full-width glyph U+FFE5, so that none is left. The amount string of the Japan Foundation
  record holds two yen glyphs; \<open>formatAmount\<close> replaces the first and leaves the second in
  the result.
\<close>

theorem formatAmount_leaves_second_yen:
  "formatAmount jf_amount (currency_code JPY) =
     [fullwidth_yen] @ ascii ''1,000,000 - '' @ [yen] @ ascii ''5,000,000'' \<and>
   yen \<in> set (formatAmount (amount (japanFoundationGrant now)) (currency_code JPY))"
  by (simp add: formatAmount_def jf_amount_def grant_amounts)

section \<open>formatDeadline\<close>

lemma renderings_distinct:
  "rolling_label \<noteq> next_deadline_prefix @ x"
  "rolling_label \<noteq> range_prefix @ y"
  "rolling_label \<noteq> fallback_label"
  "next_deadline_prefix @ x \<noteq> range_prefix @ y"
  "next_deadline_prefix @ x \<noteq> fallback_label"
  "range_prefix @ y \<noteq> fallback_label"
  by (simp_all add: rolling_label_def fallback_label_def next_deadline_prefix_def range_prefix_def)

text \<open>
  C4. \<open>formatDeadline\<close> is a total function of the deadline alone (and of the date
  localisation), choosing one of four renderings in priority order: the rolling label when
  \<open>isRolling\<close> holds, whatever the other fields hold; else the next-deadline label with the
  localised \<open>nextDeadline\<close> when that is present; else the range label when both \<open>start\<close>
  and \<open>end\<close> are present, which is not the fallback; else the fallback string.
\<close>

theorem formatDeadline_priority:
  "(isRolling d \<longrightarrow> formatDeadline localeDate d = rolling_label) \<and>
   (\<not> isRolling d \<and> nextDeadline d = Some nd \<longrightarrow>
      formatDeadline localeDate d = next_deadline_prefix @ localeDate nd) \<and>
   (\<not> isRolling d \<and> nextDeadline d = None \<and> start d = Some st \<and> end' d = Some en \<longrightarrow>
      formatDeadline localeDate d =
        range_prefix @ localeDate st @ ascii '' - '' @ localeDate en \<and>
      formatDeadline localeDate d \<noteq> fallback_label) \<and>
   (\<not> isRolling d \<and> nextDeadline d = None \<and> (start d = None \<or> end' d = None) \<longrightarrow>
      formatDeadline localeDate d = fallback_label)"
  using renderings_distinct(6)
  by (auto simp: formatDeadline_def split: option.splits)

text \<open>One deadline for each of the four rules; the first has every field populated.\<close>

theorem formatDeadline_priority_witness:
  "formatDeadline (\<lambda>t. toString_nat (nat t))
     \<lparr>start = Some 1, end' = Some 2, isRolling = True, nextDeadline = Some 3, cycle = None\<rparr>
     = rolling_label \<and>
   formatDeadline (\<lambda>t. toString_nat (nat t))
     \<lparr>start = Some 1, end' = Some 2, isRolling = False, nextDeadline = Some 3, cycle = None\<rparr>
     = next_deadline_prefix @ ascii ''3'' \<and>
   formatDeadline (\<lambda>t. toString_nat (nat t))
     \<lparr>start = Some 1, end' = Some 2, isRolling = False, nextDeadline = None, cycle = None\<rparr>
     = range_prefix @ ascii ''1 - 2'' \<and>
   formatDeadline (\<lambda>t. toString_nat (nat t))
     \<lparr>start = Some 1, end' = None, isRolling = False, nextDeadline = None, cycle = None\<rparr>
     = fallback_label"
  using
    formatDeadline_priority [of "\<lparr>start = Some 1, end' = Some 2, isRolling = True,
      nextDeadline = Some 3, cycle = None\<rparr>" "\<lambda>t. toString_nat (nat t)"]
    formatDeadline_priority [of "\<lparr>start = Some 1, end' = Some 2, isRolling = False,
      nextDeadline = Some 3, cycle = None\<rparr>" "\<lambda>t. toString_nat (nat t)" 3]
    formatDeadline_priority [of "\<lparr>start = Some 1, end' = Some 2, isRolling = False,
      nextDeadline = None, cycle = None\<rparr>" "\<lambda>t. toString_nat (nat t)" _ 1 2]
    formatDeadline_priority [of "\<lparr>start = Some 1, end' = None, isRolling = False,
      nextDeadline = None, cycle = None\<rparr>" "\<lambda>t. toString_nat (nat t)"]
  by (simp add: ascii_def toString_nat.simps)

section \<open>Determinism and order of scrapeGrants\<close>

text \<open>
  C5. Two calls of \<open>scrapeGrants\<close> with the same reference time (on scrapers in the same
  state of initialisation), whatever the wall clock reads during each, give the same
  records up to the \<open>lastUpdated\<close> stamp, hence the same \<open>nextDeadline\<close> values and
  the same formatted deadlines and amounts.
\<close>

theorem scrapeGrants_deterministic:
  assumes "currentDate s1 = currentDate s2" and "(browser s1 = None) = (browser s2 = None)"
  shows "map without_stamp (scrapeGrants s1 clock1) = map without_stamp (scrapeGrants s2 clock2) \<and>
         map (\<lambda>g. nextDeadline (deadline g)) (scrapeGrants s1 clock1) =
           map (\<lambda>g. nextDeadline (deadline g)) (scrapeGrants s2 clock2) \<and>
         map (\<lambda>g. formatDeadline localeDate (deadline g)) (scrapeGrants s1 clock1) =
           map (\<lambda>g. formatDeadline localeDate (deadline g)) (scrapeGrants s2 clock2) \<and>
         map (\<lambda>g. formatAmount (amount g) (currency_code (currency g))) (scrapeGrants s1 clock1) =
           map (\<lambda>g. formatAmount (amount g) (currency_code (currency g))) (scrapeGrants s2 clock2)"
proof (cases "browser s1 = None")
  case True
  with assms show ?thesis by (simp add: scrapeGrants_uninitialized)
next
  case False
  with assms have "browser s2 \<noteq> None" by simp
  with False assms(1) show ?thesis
    by (simp add: scrapeGrants_initialized grant_deadlines grant_amounts without_stamp_grants)
qed

lemma stamps_differ:
  "map lastUpdated
     (scrapeGrants (initialize LaunchedBrowser (GrantScraper_new 1717200000000)) (\<lambda>k. 5))
     = [5, 5, 5]"
  "map lastUpdated
     (scrapeGrants (initialize LaunchedBrowser (GrantScraper_new 1717200000000))
        (\<lambda>k. 7 + int k))
     = [7, 8, 9]"
  by (simp_all add: scrapeGrants_initialized initialize_fields jfEnd_value
      pollinationGrant_def japanFoundationGrant_def saraiGrant_def)

text \<open>Two runs at the same reference time whose stamps differ.\<close>

theorem scrapeGrants_deterministic_witness:
  "map without_stamp
     (scrapeGrants (initialize LaunchedBrowser (GrantScraper_new 1717200000000)) (\<lambda>k. 5)) =
   map without_stamp
     (scrapeGrants (initialize LaunchedBrowser (GrantScraper_new 1717200000000))
        (\<lambda>k. 7 + int k)) \<and>
   map lastUpdated
     (scrapeGrants (initialize LaunchedBrowser (GrantScraper_new 1717200000000)) (\<lambda>k. 5)) \<noteq>
   map lastUpdated
     (scrapeGrants (initialize LaunchedBrowser (GrantScraper_new 1717200000000))
        (\<lambda>k. 7 + int k))"
proof -
  have "map without_stamp
     (scrapeGrants (initialize LaunchedBrowser (GrantScraper_new 1717200000000)) (\<lambda>k. 5)) =
   map without_stamp
     (scrapeGrants (initialize LaunchedBrowser (GrantScraper_new 1717200000000))
        (\<lambda>k. 7 + int k))"
    using scrapeGrants_deterministic
      [of "initialize LaunchedBrowser (GrantScraper_new 1717200000000)"
          "initialize LaunchedBrowser (GrantScraper_new 1717200000000)"
          "\<lambda>k. 5" "\<lambda>k. 7 + int k"]
    by simp
  then show ?thesis
    unfolding stamps_differ by simp
qed

text \<open>
  C6. For an initialised scraper and every reference time, the output holds more than
  one record and its records stand in the order in which the source writes them
  (Pollination Project, Japan Foundation, SARAI), restricted to those emitted.
\<close>

theorem scrapeGrants_authoring_order:
  assumes "browser s \<noteq> None"
  shows "1 < length (scrapeGrants s clock) \<and>
         map title (scrapeGrants s clock) =
           filter (\<lambda>t. t \<in> title ` set (scrapeGrants s clock)) authoring_order \<and>
         map title (scrapeGrants s clock) =
           (if currentDate s \<le> jfEnd then [pollination_title, jf_title, sarai_title]
            else [pollination_title, sarai_title])"
  using assms titles_distinct
  by (auto simp: scrapeGrants_initialized grant_titles authoring_order_def)

theorem scrapeGrants_authoring_order_witness:
  "map title (scrapeGrants (initialize LaunchedBrowser (GrantScraper_new 1717200000000)) (\<lambda>k. 0))
     = [pollination_title, jf_title, sarai_title] \<and>
   map title (scrapeGrants (initialize LaunchedBrowser (GrantScraper_new 1738368000000)) (\<lambda>k. 0))
     = [pollination_title, sarai_title]"
  using
    scrapeGrants_authoring_order [OF initialize_fields(1), THEN conjunct2, THEN conjunct2,
      of LaunchedBrowser "GrantScraper_new 1717200000000" "\<lambda>k. 0"]
    scrapeGrants_authoring_order [OF initialize_fields(1), THEN conjunct2, THEN conjunct2,
      of LaunchedBrowser "GrantScraper_new 1738368000000" "\<lambda>k. 0"]
  by (simp add: initialize_fields jfEnd_value)

section \<open>Invariants of the emitted records\<close>

text \<open>
  C7. Every record emitted by \<open>scrapeGrants\<close> whose deadline is rolling carries neither
  \<open>start\<close> nor \<open>end\<close>, and an initialised scraper emits that record (a rolling record of
  the same title) at every reference time.
\<close>

theorem rolling_record_invariant:
  assumes "browser s \<noteq> None"
  shows "(\<exists>g \<in> set (scrapeGrants s clock). isRolling (deadline g)) \<and>
         (\<forall>g \<in> set (scrapeGrants s clock).
            isRolling (deadline g) \<longrightarrow>
            start (deadline g) = None \<and> end' (deadline g) = None \<and>
            (\<forall>s' clock'. browser s' \<noteq> None \<longrightarrow>
               (\<exists>g' \<in> set (scrapeGrants s' clock').
                  title g' = title g \<and> isRolling (deadline g'))))"
  using assms by (simp add: scrapeGrants_initialized grant_titles grant_deadlines)

theorem rolling_record_invariant_witness:
  "\<exists>g \<in> set (scrapeGrants (initialize LaunchedBrowser (GrantScraper_new 1738368000000)) (\<lambda>k. 0)).
     isRolling (deadline g) \<and> start (deadline g) = None \<and> end' (deadline g) = None \<and>
     (\<exists>g' \<in> set (scrapeGrants (initialize LaunchedBrowser (GrantScraper_new 0)) (\<lambda>k. 1)).
        title g' = title g \<and> isRolling (deadline g'))"
proof -
  have init: "browser (initialize LaunchedBrowser (GrantScraper_new t)) \<noteq> None" for t
    by (rule initialize_fields)
  from rolling_record_invariant [OF init, of 1738368000000 "\<lambda>k. 0"] init [of 0]
  show ?thesis by blast
qed

text \<open>
  C10. Every record emitted by \<open>scrapeGrants\<close> is rolling or has \<open>nextDeadline\<close> set, and
  a non-rolling one has \<open>nextDeadline\<close> equal to its \<open>end\<close>; so \<open>formatDeadline\<close> of an
  emitted deadline is the rolling label or the next-deadline label, never the fallback
  string and never a range label.
\<close>

theorem emitted_deadline_rendering:
  assumes "g \<in> set (scrapeGrants s clock)"
  shows "(isRolling (deadline g) \<or> nextDeadline (deadline g) \<noteq> None) \<and>
         (\<not> isRolling (deadline g) \<longrightarrow>
            end' (deadline g) \<noteq> None \<and> nextDeadline (deadline g) = end' (deadline g)) \<and>
         (formatDeadline localeDate (deadline g) = rolling_label \<or>
          (\<exists>nd. nextDeadline (deadline g) = Some nd \<and>
             formatDeadline localeDate (deadline g) = next_deadline_prefix @ localeDate nd)) \<and>
         formatDeadline localeDate (deadline g) \<noteq> fallback_label \<and>
         \<not> prefix range_prefix (formatDeadline localeDate (deadline g))"
proof (cases "browser s = None")
  case True
  with assms show ?thesis by (simp add: scrapeGrants_uninitialized)
next
  case False
  from False assms show ?thesis
    using labels_distinct renderings_distinct(5)
    by (auto simp: scrapeGrants_initialized grant_deadlines formatDeadline_def
        split: if_splits)
qed

theorem emitted_deadline_rendering_witness:
  "japanFoundationGrant 0 \<in>
     set (scrapeGrants (initialize LaunchedBrowser (GrantScraper_new 1717200000000)) (\<lambda>k. 0)) \<and>
   nextDeadline (deadline (japanFoundationGrant 0)) = end' (deadline (japanFoundationGrant 0)) \<and>
   formatDeadline (\<lambda>t. ascii ''2025/1/15'') (deadline (japanFoundationGrant 0)) \<noteq> fallback_label \<and>
   \<not> prefix range_prefix
     (formatDeadline (\<lambda>t. ascii ''2025/1/15'') (deadline (japanFoundationGrant 0)))"
proof -
  have mem: "japanFoundationGrant 0 \<in>
     set (scrapeGrants (initialize LaunchedBrowser (GrantScraper_new 1717200000000)) (\<lambda>k. 0))"
    by (simp add: scrapeGrants_initialized initialize_fields jfEnd_value)
  have "\<not> isRolling (deadline (japanFoundationGrant 0))"
    by (simp add: grant_deadlines)
  with emitted_deadline_rendering [OF mem, of "\<lambda>t. ascii ''2025/1/15''"] mem
  show ?thesis by blast
qed

section \<open>The status line and the uninitialised scraper\<close>

text \<open>
  C8. The status printed for a record is a two-way choice on its \<open>status\<close> field:
  \<open>active\<close> gives the accepting-applications label, every other value, \<open>closed\<close>
  included, gives the upcoming label; the two labels differ.
\<close>

theorem statusLine_two_way:
  "(status g = active \<longrightarrow> statusLine g = status_line_prefix @ accepting_label) \<and>
   (status g \<noteq> active \<longrightarrow> statusLine g = status_line_prefix @ upcoming_label) \<and>
   (status g = closed \<longrightarrow> statusLine g = status_line_prefix @ upcoming_label) \<and>
   accepting_label \<noteq> upcoming_label"
  by (simp add: statusLine_def accepting_label_def upcoming_label_def)

theorem statusLine_two_way_witness:
  "map statusLine
     (scrapeGrants (initialize LaunchedBrowser (GrantScraper_new 1717200000000)) (\<lambda>k. 0)) =
     [status_line_prefix @ accepting_label, status_line_prefix @ upcoming_label,
      status_line_prefix @ upcoming_label] \<and>
   statusLine (saraiGrant 0\<lparr>status := closed\<rparr>) = status_line_prefix @ upcoming_label"
  using statusLine_two_way [of "pollinationGrant 1717200000000 0"]
    statusLine_two_way [of "japanFoundationGrant 0"]
    statusLine_two_way [of "saraiGrant 0"]
    statusLine_two_way [of "saraiGrant 0\<lparr>status := closed\<rparr>"]
  by (simp add: scrapeGrants_initialized initialize_fields jfEnd_value grant_statuses)

text \<open>
  C9. When \<open>initialize\<close> has not been called (\<open>browser\<close> is \<open>null\<close>), \<open>scrapeGrants\<close>
  returns the empty list, and \<open>getAllGrants\<close> logs a count of 0 and returns no grants.
\<close>

theorem uninitialized_scraper_reports_nothing:
  assumes "browser s = None"
  shows "scrapeGrants s clock = [] \<and>
         getAllGrants s clock = (grant_count_label @ ascii ''0'', [])"
  using assms
  by (simp add: getAllGrants_def scrapeGrants_uninitialized ascii_def toString_nat.simps)

theorem uninitialized_scraper_reports_nothing_witness:
  "scrapeGrants (GrantScraper_new 1717200000000) (\<lambda>k. 0) = [] \<and>
   getAllGrants (GrantScraper_new 1717200000000) (\<lambda>k. 0) = (grant_count_label @ ascii ''0'', [])"
  using uninitialized_scraper_reports_nothing [OF initialize_fields(4)] by blast

end
